theory Spec2Isabelle
  imports Main
begin

section \<open>Data model of the deployment service\<close>

text \<open>
  The deployment service (\<^verbatim>\<open>DeploymentService\<close>) drives one deployment over a
  \<^verbatim>\<open>NodeSSH\<close> session.  A JavaScript string is modelled as a \<^typ>\<open>string\<close> whose
  characters are code units below 256 (ISO-8859-1 text); a nullable column of the
  persistence layer is an \<^typ>\<open>'a option\<close>.
\<close>

text \<open>The columns of \<^verbatim>\<open>Server\<close> that the service reads.\<close>

record server =
  ip_address :: string
  ssh_port :: "int option"
  ssh_username :: string
  ssh_password :: "string option"
  ssh_private_key :: "string option"

text \<open>The columns of \<^verbatim>\<open>Project\<close> that the service reads, with the associated server.\<close>

record project =
  name :: string
  project_type :: string
  source_type :: string
  source_url :: "string option"
  source_path :: "string option"
  deploy_path :: string
  custom_commands :: "string option"
  server :: server

text \<open>The object handed to \<^verbatim>\<open>ssh.connect\<close>; an absent key is \<^const>\<open>None\<close>.\<close>

record connect_config =
  host :: string
  port :: "int option"
  username :: string
  password :: "string option"
  privateKey :: "string option"

text \<open>What \<^verbatim>\<open>ssh.execCommand\<close> resolves to; the exit code is absent when the remote
  process was ended by a signal.\<close>

record exec_result =
  code :: "int option"
  stdout :: string
  stderr :: string

text \<open>
  Thrown values: \<^verbatim>\<open>new Error(msg)\<close> raised by the service itself, a \<^verbatim>\<open>TypeError\<close> of
  the runtime, and whatever a session primitive rejects with.
\<close>

datatype js_error = Error string | TypeError string | SessionError string

text \<open>
  Everything the service does to the outside world, in order: console output, and the
  calls of the session primitives.
\<close>

datatype event =
    Log string
  | LogError string "js_error option"
  | Connect connect_config
  | ExecCommand string "string option"
  | PutFile string string
  | Dispose

text \<open>
  The environment of one run.  The functions of Node's \<^verbatim>\<open>path\<close> module and the clock are
  parameters; the outcome of a session primitive may depend on everything that happened
  before the call (the remote host is any deterministic function of the history).
\<close>

record env =
  path_join :: "string \<Rightarrow> string \<Rightarrow> string"
  path_basename :: "string \<Rightarrow> string"
  path_extname :: "string \<Rightarrow> string"
  date_toISOString :: "event list \<Rightarrow> string"
  connect_outcome :: "event list \<Rightarrow> connect_config \<Rightarrow> js_error option"
  exec_outcome :: "event list \<Rightarrow> string \<Rightarrow> string option \<Rightarrow> js_error + exec_result"
  putFile_outcome :: "event list \<Rightarrow> string \<Rightarrow> string \<Rightarrow> js_error option"

section \<open>Effects: a trace of events and a thrown error or a value\<close>

type_synonym 'a io = "event list \<Rightarrow> (js_error + 'a) \<times> event list"

definition ret :: "'a \<Rightarrow> 'a io" where
  "ret x h = (Inr x, h)"

definition throw :: "js_error \<Rightarrow> 'a io" where
  "throw e h = (Inl e, h)"

definition bind :: "'a io \<Rightarrow> ('a \<Rightarrow> 'b io) \<Rightarrow> 'b io" where
  "bind m f h = (case m h of (Inl e, h') \<Rightarrow> (Inl e, h') | (Inr x, h') \<Rightarrow> f x h')"

definition console_log :: "string \<Rightarrow> unit io" where
  "console_log s h = (Inr (), h @ [Log s])"

definition console_error :: "string \<Rightarrow> js_error option \<Rightarrow> unit io" where
  "console_error s e h = (Inr (), h @ [LogError s e])"

definition ssh_connect :: "env \<Rightarrow> connect_config \<Rightarrow> unit io" where
  "ssh_connect env config h =
     (case connect_outcome env h config of
        Some e \<Rightarrow> (Inl e, h @ [Connect config])
      | None \<Rightarrow> (Inr (), h @ [Connect config]))"

definition execCommand :: "env \<Rightarrow> string \<Rightarrow> string option \<Rightarrow> exec_result io" where
  "execCommand env command cwd h = (exec_outcome env h command cwd, h @ [ExecCommand command cwd])"

definition putFile :: "env \<Rightarrow> string \<Rightarrow> string \<Rightarrow> unit io" where
  "putFile env localFile remoteFile h =
     (case putFile_outcome env h localFile remoteFile of
        Some e \<Rightarrow> (Inl e, h @ [PutFile localFile remoteFile])
      | None \<Rightarrow> (Inr (), h @ [PutFile localFile remoteFile]))"

definition ssh_dispose :: "unit io" where
  "ssh_dispose h = (Inr (), h @ [Dispose])"

section \<open>String primitives of the runtime\<close>

text \<open>\<^verbatim>\<open>if (s)\<close> on a nullable string: null and the empty string are falsy.\<close>

fun truthy :: "string option \<Rightarrow> bool" where
  "truthy None = False"
| "truthy (Some s) = (s \<noteq> [])"

text \<open>A nullable string spliced into a template literal.\<close>

fun template :: "string option \<Rightarrow> string" where
  "template None = ''null''"
| "template (Some s) = s"

text \<open>The white space and line terminators of ECMAScript below code unit 256.\<close>

definition js_whitespace :: "char \<Rightarrow> bool" where
  "js_whitespace c = (of_char c \<in> set [9, 10, 11, 12, 13, 32, 160 :: nat])"

definition trim :: "string \<Rightarrow> string" where
  "trim s = rev (dropWhile js_whitespace (rev (dropWhile js_whitespace s)))"

definition toLowerCase :: "string \<Rightarrow> string" where
  "toLowerCase s =
     map (\<lambda>c. let n = (of_char c :: nat) in
            if (65 \<le> n \<and> n \<le> 90) \<or> (192 \<le> n \<and> n \<le> 222 \<and> n \<noteq> 215) then char_of (n + 32) else c) s"

text \<open>\<^verbatim>\<open>s.replace(/[:.]/g, '-')\<close>\<close>

definition replace_colon_dot :: "string \<Rightarrow> string" where
  "replace_colon_dot s = map (\<lambda>c. if c = CHR '':'' \<or> c = CHR ''.'' then CHR ''-'' else c) s"

text \<open>\<^verbatim>\<open>s.split('\n')\<close>: the pieces between line feeds, never an empty list.\<close>

fun split_newline :: "string \<Rightarrow> string list" where
  "split_newline [] = [[]]"
| "split_newline (c # cs) =
     (if c = CHR 0x0A then [] # split_newline cs
      else (case split_newline cs of [] \<Rightarrow> [[c]] | l # ls \<Rightarrow> (c # l) # ls))"

section \<open>Session Manager\<close>

text \<open>Lines 48 to 58 of \<^verbatim>\<open>connectSSH\<close>: the configuration derived from a server.\<close>

definition connect_config_of :: "server \<Rightarrow> connect_config" where
  "connect_config_of srv =
     (let config = \<lparr>host = ip_address srv, port = ssh_port srv,
                     username = ssh_username srv, password = None, privateKey = None\<rparr>
      in if truthy (ssh_password srv) then config\<lparr>password := ssh_password srv\<rparr>
         else if truthy (ssh_private_key srv) then config\<lparr>privateKey := ssh_private_key srv\<rparr>
         else config)"

definition connectSSH :: "env \<Rightarrow> server \<Rightarrow> unit io" where
  "connectSSH env srv =
     bind (ssh_connect env (connect_config_of srv)) (\<lambda>_.
     console_log ''SSH connection established'')"

section \<open>Backup Manager\<close>

definition backupDir :: string where
  "backupDir = ''/var/backups/webdeploy''"

text \<open>The existence probe shared by \<^verbatim>\<open>createBackup\<close> and \<^verbatim>\<open>deployFromGitHub\<close>.\<close>

definition test_d_cmd :: "string \<Rightarrow> string" where
  \<open>test_d_cmd projectPath = ''test -d '' @ projectPath @ '' && echo "exists" || echo "not found"''\<close>

definition backup_pattern :: "project \<Rightarrow> string" where
  "backup_pattern p = name p @ ''_*.tar.gz''"

definition tar_czf_cmd :: "project \<Rightarrow> string \<Rightarrow> string" where
  "tar_czf_cmd p backupName =
     ''tar -czf '' @ backupDir @ ''/'' @ backupName @ ''.tar.gz -C '' @ deploy_path p @ '' '' @ name p"

definition clean_old_backups_cmd :: "project \<Rightarrow> string" where
  "clean_old_backups_cmd p =
     ''cd '' @ backupDir @ '' && ls -t '' @ backup_pattern p @ '' | tail -n +6 | xargs -r rm''"

text \<open>The body of the \<^verbatim>\<open>try\<close> block of \<^verbatim>\<open>createBackup\<close>.\<close>

definition createBackup_try :: "env \<Rightarrow> project \<Rightarrow> unit io" where
  "createBackup_try env p h =
     (let projectPath = path_join env (deploy_path p) (name p);
          timestamp = replace_colon_dot (date_toISOString env h);
          backupName = name p @ ''_'' @ timestamp
      in bind (execCommand env (test_d_cmd projectPath) None) (\<lambda>checkResult.
           if trim (stdout checkResult) = ''exists'' then
             bind (console_log ''Creating backup of existing project...'') (\<lambda>_.
             bind (execCommand env (''mkdir -p '' @ backupDir) None) (\<lambda>_.
             bind (execCommand env (tar_czf_cmd p backupName) None) (\<lambda>_.
             bind (console_log (''Backup created: '' @ backupName @ ''.tar.gz'')) (\<lambda>_.
             bind (execCommand env (clean_old_backups_cmd p) None) (\<lambda>_.
             ret ())))))
           else ret ()) h)"

text \<open>\<^verbatim>\<open>createBackup\<close>: the \<^verbatim>\<open>catch\<close> clause logs the error and does not rethrow.\<close>

definition createBackup :: "env \<Rightarrow> project \<Rightarrow> unit io" where
  "createBackup env p h =
     (case createBackup_try env p h of
        (Inr u, h') \<Rightarrow> (Inr u, h')
      | (Inl error, h') \<Rightarrow> console_error ''Backup creation failed:'' (Some error) h')"

section \<open>Source Acquirer\<close>

definition git_pull_cmd :: "string \<Rightarrow> string" where
  "git_pull_cmd projectPath =
     ''cd '' @ projectPath @ '' && git pull origin main || git pull origin master''"

definition git_clone_cmd :: "project \<Rightarrow> string" where
  "git_clone_cmd p =
     ''cd '' @ deploy_path p @ '' && git clone '' @ template (source_url p) @ '' '' @ name p"

definition deployFromGitHub :: "env \<Rightarrow> project \<Rightarrow> unit io" where
  "deployFromGitHub env p =
     bind (console_log (''Deploying from GitHub: '' @ template (source_url p))) (\<lambda>_.
     let projectPath = path_join env (deploy_path p) (name p) in
     bind (execCommand env (test_d_cmd projectPath) None) (\<lambda>checkResult.
       if trim (stdout checkResult) = ''exists'' then
         bind (console_log ''Pulling latest changes...'') (\<lambda>_.
         bind (execCommand env (git_pull_cmd projectPath) None) (\<lambda>result.
           if code result \<noteq> Some 0 then throw (Error (''Git pull failed: '' @ stderr result))
           else console_log (''Git pull output: '' @ stdout result)))
       else
         bind (console_log ''Cloning repository...'') (\<lambda>_.
         bind (execCommand env (''mkdir -p '' @ deploy_path p) None) (\<lambda>_.
         bind (execCommand env (git_clone_cmd p) None) (\<lambda>result.
           if code result \<noteq> Some 0 then throw (Error (''Git clone failed: '' @ stderr result))
           else console_log (''Git clone output: '' @ stdout result))))))"

text \<open>The three extraction commands of \<^verbatim>\<open>deployFromUpload\<close>, chosen by the extension.\<close>

definition unzip_cmd :: "string \<Rightarrow> string \<Rightarrow> string" where
  "unzip_cmd base projectPath = ''unzip -o /tmp/'' @ base @ '' -d '' @ projectPath"

definition tar_xzf_cmd :: "string \<Rightarrow> string \<Rightarrow> string" where
  "tar_xzf_cmd base projectPath = ''tar -xzf /tmp/'' @ base @ '' -C '' @ projectPath"

definition cp_cmd :: "string \<Rightarrow> string \<Rightarrow> string" where
  "cp_cmd base projectPath = ''cp /tmp/'' @ base @ '' '' @ projectPath @ ''/''"

text \<open>
  \<^verbatim>\<open>deployFromUpload\<close>.  \<^verbatim>\<open>path.basename\<close> and \<^verbatim>\<open>path.extname\<close> throw a
  \<^verbatim>\<open>TypeError\<close> on \<^verbatim>\<open>null\<close>; the first of them is evaluated for the arguments of
  \<^verbatim>\<open>putFile\<close>, after the directory has been created.
\<close>

definition deployFromUpload :: "env \<Rightarrow> project \<Rightarrow> unit io" where
  \<open>deployFromUpload env p =
     bind (console_log ''Deploying from uploaded file...'') (\<lambda>_.
     let projectPath = path_join env (deploy_path p) (name p) in
     bind (execCommand env (''mkdir -p '' @ projectPath) None) (\<lambda>_.
     case source_path p of
       None \<Rightarrow> throw (TypeError ''The "path" argument must be of type string. Received null'')
     | Some sourcePath \<Rightarrow>
         let base = path_basename env sourcePath in
         bind (putFile env sourcePath (''/tmp/'' @ base)) (\<lambda>_.
         let ext = toLowerCase (path_extname env sourcePath) in
         bind (if ext = ''.zip'' then execCommand env (unzip_cmd base projectPath) None
               else if ext = ''.tar'' \<or> ext = ''.gz'' \<or> ext = ''.tgz''
                 then execCommand env (tar_xzf_cmd base projectPath) None
               else execCommand env (cp_cmd base projectPath) None) (\<lambda>_.
         bind (execCommand env (''rm /tmp/'' @ base) None) (\<lambda>_.
         console_log ''File uploaded and extracted'')))))\<close>

section \<open>Build Executor\<close>

definition pm2_cmd :: "project \<Rightarrow> string" where
  \<open>pm2_cmd p = ''pm2 restart '' @ name p @ '' || pm2 start npm --name "'' @ name p @ ''" -- start''\<close>

definition test_f_cmd :: "string \<Rightarrow> string \<Rightarrow> string" where
  \<open>test_f_cmd projectPath file = ''test -f '' @ projectPath @ ''/'' @ file @ '' && echo "exists"''\<close>

definition chmod_cmd :: "string \<Rightarrow> string" where
  "chmod_cmd projectPath = ''chmod -R 755 '' @ projectPath"

text \<open>The \<^verbatim>\<open>switch\<close> of \<^verbatim>\<open>executeProjectTypeCommands\<close>.\<close>

definition project_type_switch :: "env \<Rightarrow> project \<Rightarrow> string \<Rightarrow> unit io" where
  "project_type_switch env p projectPath =
     (if project_type p = ''nodejs'' then
        bind (execCommand env (''cd '' @ projectPath @ '' && npm install'') None) (\<lambda>_.
        bind (execCommand env ''which pm2'' None) (\<lambda>pm2Check.
          if code pm2Check = Some 0 then
            bind (execCommand env (pm2_cmd p) (Some projectPath)) (\<lambda>_.
            console_log ''Node.js app restarted with PM2'')
          else ret ()))
      else if project_type p = ''php'' then
        bind (execCommand env (test_f_cmd projectPath ''composer.json'') None) (\<lambda>composerCheck.
          if trim (stdout composerCheck) = ''exists'' then
            bind (execCommand env
                    (''cd '' @ projectPath @ '' && composer install --no-dev --optimize-autoloader'') None) (\<lambda>_.
            console_log ''Composer dependencies installed'')
          else ret ())
      else if project_type p = ''python'' then
        bind (execCommand env (test_f_cmd projectPath ''requirements.txt'') None) (\<lambda>reqCheck.
          if trim (stdout reqCheck) = ''exists'' then
            bind (execCommand env (''cd '' @ projectPath @ '' && pip3 install -r requirements.txt'') None) (\<lambda>_.
            console_log ''Python dependencies installed'')
          else ret ())
      else if project_type p = ''static'' then
        console_log ''Static site deployed - no additional commands needed''
      else console_log ''Unknown project type - skipping type-specific commands'')"

definition executeProjectTypeCommands :: "env \<Rightarrow> project \<Rightarrow> unit io" where
  "executeProjectTypeCommands env p =
     (let projectPath = path_join env (deploy_path p) (name p) in
      bind (console_log (''Executing '' @ project_type p @ '' specific commands...'')) (\<lambda>_.
      bind (project_type_switch env p projectPath) (\<lambda>_.
      bind (execCommand env (chmod_cmd projectPath) None) (\<lambda>_.
      ret ()))))"

section \<open>Custom Command Runner\<close>

text \<open>The \<^verbatim>\<open>for\<close> loop of \<^verbatim>\<open>executeCustomCommands\<close>.\<close>

fun run_commands :: "env \<Rightarrow> string \<Rightarrow> string list \<Rightarrow> unit io" where
  "run_commands env projectPath [] = ret ()"
| "run_commands env projectPath (command # commands) =
     bind (console_log (''Executing: '' @ command)) (\<lambda>_.
     bind (execCommand env command (Some projectPath)) (\<lambda>result.
     bind (if code result \<noteq> Some 0 then console_error (''Command failed: '' @ stderr result) None
           else console_log (''Command output: '' @ stdout result)) (\<lambda>_.
     run_commands env projectPath commands)))"

definition custom_command_list :: "string \<Rightarrow> string list" where
  "custom_command_list s = filter (\<lambda>cmd. trim cmd \<noteq> []) (split_newline s)"

definition executeCustomCommands :: "env \<Rightarrow> project \<Rightarrow> unit io" where
  "executeCustomCommands env p =
     bind (console_log ''Executing custom commands...'') (\<lambda>_.
     let projectPath = path_join env (deploy_path p) (name p) in
     case custom_commands p of
       None \<Rightarrow> throw (TypeError ''Cannot read properties of null (reading 'split')'')
     | Some s \<Rightarrow> run_commands env projectPath (custom_command_list s))"

section \<open>Orchestrator\<close>

text \<open>The \<^verbatim>\<open>try\<close> block of \<^verbatim>\<open>deploy\<close>.\<close>

definition deploy_try :: "env \<Rightarrow> project \<Rightarrow> bool io" where
  "deploy_try env p =
     bind (console_log (''Starting deployment for project: '' @ name p)) (\<lambda>_.
     bind (connectSSH env (server p)) (\<lambda>_.
     bind (createBackup env p) (\<lambda>_.
     bind (if source_type p = ''github'' then deployFromGitHub env p
           else if source_type p = ''upload'' then deployFromUpload env p
           else ret ()) (\<lambda>_.
     bind (executeProjectTypeCommands env p) (\<lambda>_.
     bind (if truthy (custom_commands p) then executeCustomCommands env p else ret ()) (\<lambda>_.
     bind (console_log (''Deployment completed for project: '' @ name p)) (\<lambda>_.
     bind ssh_dispose (\<lambda>_.
     ret True))))))))"

text \<open>
  \<^verbatim>\<open>deploy\<close>, from a fresh session: the \<^verbatim>\<open>catch\<close> clause logs the error, disposes the
  session (the \<^verbatim>\<open>NodeSSH\<close> object is always truthy) and rethrows.
\<close>

definition deploy :: "env \<Rightarrow> project \<Rightarrow> (js_error + bool) \<times> event list" where
  "deploy env p =
     (case deploy_try env p [] of
        (Inr b, h) \<Rightarrow> (Inr b, h)
      | (Inl error, h) \<Rightarrow>
          bind (console_error (''Deployment failed for project '' @ name p @ '':'') (Some error)) (\<lambda>_.
          bind ssh_dispose (\<lambda>_.
          throw error)) h)"

section \<open>The remote shell on unquoted text\<close>

text \<open>
  Every command is built by splicing paths and names into the command text without
  quoting, so what the remote host does depends on how its shell reads that text.  The
  model covers text made of plain characters (letters, digits and \<^verbatim>\<open>_ - . /\<close>) and
  blanks (space and tab), which the shell only splits into words at the blanks; for any
  other text it gives no answer (\<^const>\<open>None\<close>).
\<close>

definition plain_char :: "char \<Rightarrow> bool" where
  "plain_char c =
     (let n = (of_char c :: nat)
      in (48 \<le> n \<and> n \<le> 57) \<or> (65 \<le> n \<and> n \<le> 90) \<or> (97 \<le> n \<and> n \<le> 122)
         \<or> n = 45 \<or> n = 46 \<or> n = 47 \<or> n = 95)"




text \<open>A word that is not read as an option; a plain word; a plain file name.\<close>

definition no_option :: "string \<Rightarrow> bool" where
  "no_option w = (take 1 w \<noteq> ''-'')"

definition plain_word :: "string \<Rightarrow> bool" where
  "plain_word w \<longleftrightarrow> w \<noteq> [] \<and> list_all plain_char w \<and> no_option w"

definition plain_name :: "string \<Rightarrow> bool" where
  "plain_name w \<longleftrightarrow> plain_word w \<and> CHR ''/'' \<notin> set w"





section \<open>The retention command on the remote host\<close>

text \<open>
  \<^verbatim>\<open>createBackup\<close> leaves retention to the shell of the remote host: the pipeline
  \<^verbatim>\<open>ls -t PATTERN | tail -n +6 | xargs -r rm\<close> run in the backup directory.  Its effect on
  a directory, given as the list of its files with their modification times: the files
  whose names match the pattern are listed newest first, the listing is cut from its
  sixth line on, and the files named there are removed.  The model answers only for a
  plain project name and a directory of plain file names with distinct names and
  distinct modification times: there \<^verbatim>\<open>*\<close> is the only special character of the pattern,
  \<^verbatim>\<open>xargs\<close> reads one file name per line and \<^verbatim>\<open>ls -t\<close> has no ties to break.
\<close>

type_synonym directory = "(string \<times> nat) list"

text \<open>Matching against a pattern in which \<^verbatim>\<open>*\<close> is the only special character.\<close>

fun glob_match :: "string \<Rightarrow> string \<Rightarrow> bool" where
  "glob_match [] s = (s = [])"
| "glob_match (c # pat) [] = (c = CHR ''*'' \<and> glob_match pat [])"
| "glob_match (c # pat) (d # s) =
     (if c = CHR ''*'' then glob_match pat (d # s) \<or> glob_match (c # pat) s
      else c = d \<and> glob_match pat s)"

definition ls_t :: "string \<Rightarrow> directory \<Rightarrow> string list" where
  "ls_t pattern dir = map fst (rev (sort_key snd (filter (\<lambda>f. glob_match pattern (fst f)) dir)))"

definition tail_from :: "nat \<Rightarrow> 'a list \<Rightarrow> 'a list" where
  "tail_from n xs = drop (n - 1) xs"

definition xargs_rm :: "string list \<Rightarrow> directory \<Rightarrow> directory" where
  "xargs_rm names dir = filter (\<lambda>f. fst f \<notin> set names) dir"

definition clean_old_backups :: "project \<Rightarrow> directory \<Rightarrow> directory option" where
  "clean_old_backups p dir =
     (if plain_name (name p) \<and> list_all (\<lambda>f. plain_name (fst f)) dir
         \<and> distinct (map fst dir) \<and> distinct (map snd dir)
      then Some (xargs_rm (tail_from 6 (ls_t (backup_pattern p) dir)) dir)
      else None)"

section \<open>Notions used to state the properties\<close>

text \<open>A session whose \<^verbatim>\<open>execCommand\<close> always resolves (with whatever exit code).\<close>

definition never_rejects :: "env \<Rightarrow> bool" where
  "never_rejects env \<longleftrightarrow> (\<forall>h command cwd. \<exists>result. exec_outcome env h command cwd = Inr result)"

text \<open>A step only appends events, and every event it appends satisfies \<open>P\<close>.\<close>

definition adds_only :: "(event \<Rightarrow> bool) \<Rightarrow> 'a io \<Rightarrow> bool" where
  "adds_only P m \<longleftrightarrow> (\<forall>h. \<exists>t. snd (m h) = h @ t \<and> list_all P t)"

definition not_dispose :: "event \<Rightarrow> bool" where
  "not_dispose e = (e \<noteq> Dispose)"

text \<open>A step appends no disposal when it throws, and exactly one, as its last event,
  when it returns.\<close>

definition ends_disposed :: "'a io \<Rightarrow> bool" where
  "ends_disposed m \<longleftrightarrow>
     (\<forall>h. \<exists>t. list_all not_dispose t \<and>
        snd (m h) = h @ t @ (case fst (m h) of Inl e \<Rightarrow> [] | Inr x \<Rightarrow> [Dispose]))"

text \<open>A step returns (it does not throw), having only appended events.\<close>

definition returns :: "'a io \<Rightarrow> bool" where
  "returns m \<longleftrightarrow> (\<forall>h. \<exists>x t. m h = (Inr x, h @ t))"

text \<open>The commands handed to \<^verbatim>\<open>execCommand\<close>, in order, with their working directory.\<close>

fun execs :: "event list \<Rightarrow> (string \<times> string option) list" where
  "execs [] = []"
| "execs (ExecCommand command cwd # es) = (command, cwd) # execs es"
| "execs (e # es) = execs es"


text \<open>What the loop of \<^verbatim>\<open>executeCustomCommands\<close> prints after a command.\<close>

definition outcome_log :: "exec_result \<Rightarrow> event" where
  "outcome_log result =
     (if code result \<noteq> Some 0 then LogError (''Command failed: '' @ stderr result) None
      else Log (''Command output: '' @ stdout result))"

text \<open>The steps of \<^verbatim>\<open>deploy\<close> up to and including the build step (lines 11 to 27).\<close>

definition deploy_through_build :: "env \<Rightarrow> project \<Rightarrow> unit io" where
  "deploy_through_build env p =
     bind (console_log (''Starting deployment for project: '' @ name p)) (\<lambda>_.
     bind (connectSSH env (server p)) (\<lambda>_.
     bind (createBackup env p) (\<lambda>_.
     bind (if source_type p = ''github'' then deployFromGitHub env p
           else if source_type p = ''upload'' then deployFromUpload env p
           else ret ()) (\<lambda>_.
     executeProjectTypeCommands env p))))"

section \<open>Example inputs\<close>

text \<open>
  A stand-in for Node's \<^verbatim>\<open>path\<close> module on simple POSIX paths, and a remote host whose
  answer depends on the command text only; the connection and the transfer succeed.
\<close>

definition example_join :: "string \<Rightarrow> string \<Rightarrow> string" where
  "example_join a b = a @ ''/'' @ b"

definition example_basename :: "string \<Rightarrow> string" where
  "example_basename s = rev (takeWhile (\<lambda>c. c \<noteq> CHR ''/'') (rev s))"

definition example_extname :: "string \<Rightarrow> string" where
  "example_extname s =
     (let b = example_basename s
      in if CHR ''.'' \<in> set (tl b) then CHR ''.'' # rev (takeWhile (\<lambda>c. c \<noteq> CHR ''.'') (rev b)) else [])"

definition example_env :: "(string \<Rightarrow> exec_result) \<Rightarrow> env" where
  "example_env respond =
     \<lparr>path_join = example_join, path_basename = example_basename, path_extname = example_extname,
      date_toISOString = (\<lambda>_. ''2024-01-01T00:00:00.000Z''),
      connect_outcome = (\<lambda>_ _. None),
      exec_outcome = (\<lambda>_ command _. Inr (respond command)),
      putFile_outcome = (\<lambda>_ _ _. None)\<rparr>"

text \<open>A host on which every command fails.\<close>

definition all_fail :: "string \<Rightarrow> exec_result" where
  "all_fail command = \<lparr>code = Some 1, stdout = [], stderr = ''failed''\<rparr>"

text \<open>A host on which every command succeeds, and one on which only \<^verbatim>\<open>exit 1\<close> fails and
  no probed directory exists.\<close>

definition all_succeed :: "string \<Rightarrow> exec_result" where
  "all_succeed command = \<lparr>code = Some 0, stdout = ''ok'', stderr = []\<rparr>"

definition fresh_host :: "string \<Rightarrow> exec_result" where
  "fresh_host command =
     (if take 7 command = ''test -d'' then \<lparr>code = Some 0, stdout = ''not found'' @ [CHR 0x0A], stderr = []\<rparr>
      else if command = ''exit 1'' then \<lparr>code = Some 1, stdout = [], stderr = []\<rparr>
      else \<lparr>code = Some 0, stdout = ''ok'', stderr = []\<rparr>)"

text \<open>A host without a session: the connection is refused and every primitive rejects.\<close>

definition unreachable_env :: env where
  "unreachable_env =
     \<lparr>path_join = example_join, path_basename = example_basename, path_extname = example_extname,
      date_toISOString = (\<lambda>_. ''2024-01-01T00:00:00.000Z''),
      connect_outcome = (\<lambda>_ _. Some (SessionError ''connect ECONNREFUSED'')),
      exec_outcome = (\<lambda>_ _ _. Inl (SessionError ''Not connected to server'')),
      putFile_outcome = (\<lambda>_ _ _. Some (SessionError ''Not connected to server''))\<rparr>"

definition password_and_key_server :: server where
  "password_and_key_server =
     \<lparr>ip_address = ''10.0.0.5'', ssh_port = Some 22, ssh_username = ''deploy'',
      ssh_password = Some ''secret'', ssh_private_key = Some ''KEY''\<rparr>"

definition key_server :: server where
  "key_server =
     \<lparr>ip_address = ''10.0.0.5'', ssh_port = Some 22, ssh_username = ''deploy'',
      ssh_password = None, ssh_private_key = Some ''KEY''\<rparr>"

definition bare_server :: server where
  "bare_server =
     \<lparr>ip_address = ''10.0.0.5'', ssh_port = Some 22, ssh_username = ''deploy'',
      ssh_password = None, ssh_private_key = None\<rparr>"

definition app1 :: project where
  "app1 =
     \<lparr>name = ''app1'', project_type = ''nodejs'', source_type = ''github'',
      source_url = Some ''git@host:org/app1.git'', source_path = None,
      deploy_path = ''/var/www'', custom_commands = None, server = key_server\<rparr>"



definition blank_commands_app :: project where
  "blank_commands_app =
     \<lparr>name = ''app3'', project_type = ''static'', source_type = ''github'',
      source_url = Some ''git@host:org/app3.git'', source_path = None,
      deploy_path = ''/var/www'',
      custom_commands = Some ('' '' @ [CHR 0x0A, CHR 0x09, CHR 0x0A] @ ''  ''),
      server = key_server\<rparr>"

definition rsync_app :: project where
  "rsync_app =
     \<lparr>name = ''app4'', project_type = ''php'', source_type = ''rsync'',
      source_url = None, source_path = None,
      deploy_path = ''/var/www'', custom_commands = Some ''exit 1'', server = key_server\<rparr>"

definition app5 :: project where
  "app5 =
     \<lparr>name = ''app5'', project_type = ''static'', source_type = ''github'',
      source_url = Some ''git@host:org/app5.git'', source_path = None,
      deploy_path = ''/var/www'',
      custom_commands = Some (''echo one'' @ [CHR 0x0A, CHR 0x0A] @ ''exit 1'' @ [CHR 0x0A] @ ''echo two''),
      server = key_server\<rparr>"

text \<open>A backup directory holding five archives of a project named \<^verbatim>\<open>app_v2\<close>, and a
  project named \<^verbatim>\<open>app\<close>.\<close>

definition app :: project where
  "app =
     \<lparr>name = ''app'', project_type = ''static'', source_type = ''github'',
      source_url = Some ''git@host:org/app.git'', source_path = None,
      deploy_path = ''/var/www'', custom_commands = None, server = key_server\<rparr>"

definition backups_of_app_v2 :: directory where
  "backups_of_app_v2 =
     [(''app_v2_2024-01-01T00-00-00-000Z.tar.gz'', 1),
      (''app_v2_2024-01-02T00-00-00-000Z.tar.gz'', 2),
      (''app_v2_2024-01-03T00-00-00-000Z.tar.gz'', 3),
      (''app_v2_2024-01-04T00-00-00-000Z.tar.gz'', 4),
      (''app_v2_2024-01-05T00-00-00-000Z.tar.gz'', 5)]"



text \<open>The definitions that evaluate a run on an example.\<close>

lemmas run_simps =
  bind_def ret_def throw_def console_log_def console_error_def ssh_connect_def execCommand_def
  putFile_def ssh_dispose_def Let_def connect_config_of_def connectSSH_def
  createBackup_try_def createBackup_def deployFromGitHub_def deployFromUpload_def
  project_type_switch_def executeProjectTypeCommands_def executeCustomCommands_def
  custom_command_list_def deploy_try_def deploy_def
  test_d_cmd_def backup_pattern_def tar_czf_cmd_def clean_old_backups_cmd_def backupDir_def
  git_pull_cmd_def git_clone_cmd_def unzip_cmd_def tar_xzf_cmd_def cp_cmd_def pm2_cmd_def
  test_f_cmd_def chmod_cmd_def trim_def js_whitespace_def toLowerCase_def replace_colon_dot_def

lemmas example_simps =
  example_env_def example_join_def example_basename_def example_extname_def
  all_fail_def all_succeed_def fresh_host_def unreachable_env_def
  password_and_key_server_def key_server_def bare_server_def



section \<open>The effect monad\<close>

lemma bind_Inl: "m h = (Inl e, h') \<Longrightarrow> bind m f h = (Inl e, h')"
  by (simp add: bind_def)

lemma bind_Inr: "m h = (Inr x, h') \<Longrightarrow> bind m f h = f x h'"
  by (simp add: bind_def)

lemma bind_assoc: "bind (bind m f) g = bind m (\<lambda>x. bind (f x) g)"
  by (rule ext) (simp add: bind_def split: prod.splits sum.splits)

lemma execs_append: "execs (a @ b) = execs a @ execs b"
  by (induction a rule: execs.induct) simp_all

lemma never_rejects_execCommand:
  "never_rejects env \<Longrightarrow> \<exists>result. execCommand env command cwd h = (Inr result, h @ [ExecCommand command cwd])"
  unfolding never_rejects_def execCommand_def by (metis)

lemma never_rejects_example_env: "never_rejects (example_env respond)"
  by (simp add: never_rejects_def example_env_def)

lemma append_eq_append_longer:
  "pre @ a = h @ b \<Longrightarrow> length h \<le> length pre \<Longrightarrow> \<exists>pre'. pre = h @ pre' \<and> b = pre' @ a"
  by (metis append_eq_append_conv_if append_take_drop_id)

section \<open>Steps append to the trace and never dispose the session\<close>

lemma adds_only_ret: "adds_only P (ret x)"
  by (simp add: adds_only_def ret_def)

lemma adds_only_throw: "adds_only P (throw e)"
  by (simp add: adds_only_def throw_def)

lemma adds_only_bind:
  assumes "adds_only P m" and "\<And>x. adds_only P (f x)"
  shows "adds_only P (bind m f)"
  unfolding adds_only_def
proof
  fix h
  from assms(1) obtain t where t: "snd (m h) = h @ t" "list_all P t"
    by (auto simp: adds_only_def)
  show "\<exists>t. snd (bind m f h) = h @ t \<and> list_all P t"
  proof (cases "m h")
    case (Pair r h')
    with t have h': "h' = h @ t" by simp
    show ?thesis
    proof (cases r)
      case (Inl e)
      with Pair h' t show ?thesis by (auto simp: bind_def)
    next
      case (Inr x)
      from assms(2)[of x] obtain u where "snd (f x h') = h' @ u" "list_all P u"
        by (auto simp: adds_only_def)
      with Pair Inr h' t show ?thesis by (auto simp: bind_def)
    qed
  qed
qed

lemma adds_only_if: "adds_only P m \<Longrightarrow> adds_only P n \<Longrightarrow> adds_only P (if b then m else n)"
  by simp

lemma adds_only_console_log: "P (Log s) \<Longrightarrow> adds_only P (console_log s)"
  by (simp add: adds_only_def console_log_def)

lemma adds_only_console_error: "P (LogError s e) \<Longrightarrow> adds_only P (console_error s e)"
  by (simp add: adds_only_def console_error_def)

lemma adds_only_execCommand: "P (ExecCommand c cwd) \<Longrightarrow> adds_only P (execCommand env c cwd)"
  by (simp add: adds_only_def execCommand_def)

lemma adds_only_putFile: "P (PutFile a b) \<Longrightarrow> adds_only P (putFile env a b)"
  by (simp add: adds_only_def putFile_def split: option.splits)

lemma adds_only_ssh_connect: "P (Connect c) \<Longrightarrow> adds_only P (ssh_connect env c)"
  by (simp add: adds_only_def ssh_connect_def split: option.splits)

lemma adds_only_case_option:
  "adds_only P m \<Longrightarrow> (\<And>x. adds_only P (f x)) \<Longrightarrow> adds_only P (case v of None \<Rightarrow> m | Some x \<Rightarrow> f x)"
  by (cases v) simp_all

lemmas adds_only_intros = adds_only_ret adds_only_throw adds_only_bind adds_only_if adds_only_case_option
  adds_only_console_log adds_only_console_error adds_only_execCommand adds_only_putFile
  adds_only_ssh_connect

lemma connectSSH_adds: "adds_only not_dispose (connectSSH env srv)"
  unfolding connectSSH_def by (intro adds_only_intros) (simp_all add: not_dispose_def)

lemma createBackup_try_adds: "adds_only not_dispose (createBackup_try env p)"
  unfolding adds_only_def
proof
  fix h
  have "adds_only not_dispose
     (bind (execCommand env (test_d_cmd projectPath) None) (\<lambda>checkResult.
           if trim (stdout checkResult) = ''exists'' then
             bind (console_log ''Creating backup of existing project...'') (\<lambda>_.
             bind (execCommand env (''mkdir -p '' @ backupDir) None) (\<lambda>_.
             bind (execCommand env (tar_czf_cmd p backupName) None) (\<lambda>_.
             bind (console_log (''Backup created: '' @ backupName @ ''.tar.gz'')) (\<lambda>_.
             bind (execCommand env (clean_old_backups_cmd p) None) (\<lambda>_.
             ret ())))))
           else ret ()))" for projectPath backupName
    by (intro adds_only_intros) (simp_all add: not_dispose_def)
  then show "\<exists>t. snd (createBackup_try env p h) = h @ t \<and> list_all not_dispose t"
    unfolding adds_only_def createBackup_try_def Let_def by blast
qed

lemma createBackup_adds: "adds_only not_dispose (createBackup env p)"
  unfolding adds_only_def
proof
  fix h
  from createBackup_try_adds[of env p] obtain t
    where t: "snd (createBackup_try env p h) = h @ t" "list_all not_dispose t"
    by (auto simp: adds_only_def)
  then show "\<exists>t. snd (createBackup env p h) = h @ t \<and> list_all not_dispose t"
    by (cases "createBackup_try env p h")
       (auto simp: createBackup_def console_error_def not_dispose_def split: sum.splits)
qed

lemma deployFromGitHub_adds: "adds_only not_dispose (deployFromGitHub env p)"
  unfolding deployFromGitHub_def Let_def by (intro adds_only_intros) (simp_all add: not_dispose_def)

lemma deployFromUpload_adds: "adds_only not_dispose (deployFromUpload env p)"
  unfolding deployFromUpload_def Let_def by (intro adds_only_intros) (simp_all add: not_dispose_def)

lemma project_type_switch_adds: "adds_only not_dispose (project_type_switch env p pp)"
  unfolding project_type_switch_def by (intro adds_only_intros) (simp_all add: not_dispose_def)

lemma executeProjectTypeCommands_adds: "adds_only not_dispose (executeProjectTypeCommands env p)"
  unfolding executeProjectTypeCommands_def Let_def
  by (intro adds_only_intros project_type_switch_adds) (simp_all add: not_dispose_def)

lemma run_commands_adds: "adds_only not_dispose (run_commands env pp cs)"
  by (induction cs) (auto intro!: adds_only_intros simp: not_dispose_def)

lemma executeCustomCommands_adds: "adds_only not_dispose (executeCustomCommands env p)"
  unfolding executeCustomCommands_def Let_def
  by (intro adds_only_intros run_commands_adds) (simp_all add: not_dispose_def)

lemma ends_disposed_bind:
  assumes "adds_only not_dispose m" and "\<And>x. ends_disposed (f x)"
  shows "ends_disposed (bind m f)"
  unfolding ends_disposed_def
proof
  fix h
  from assms(1) obtain t where t: "snd (m h) = h @ t" "list_all not_dispose t"
    unfolding adds_only_def by blast
  obtain r h' where mh: "m h = (r, h')" by (cases "m h")
  with t have h': "h' = h @ t" by simp
  show "\<exists>t. list_all not_dispose t \<and>
        snd (bind m f h) = h @ t @ (case fst (bind m f h) of Inl e \<Rightarrow> [] | Inr x \<Rightarrow> [Dispose])"
  proof (cases r)
    case (Inl e)
    with mh have "bind m f h = (Inl e, h')" by (simp add: bind_Inl)
    with h' t(2) show ?thesis by auto
  next
    case (Inr x)
    with mh have b: "bind m f h = f x h'" by (simp add: bind_Inr)
    from assms(2)[of x] obtain u where u: "list_all not_dispose u"
      "snd (f x h') = h' @ u @ (case fst (f x h') of Inl e \<Rightarrow> [] | Inr y \<Rightarrow> [Dispose])"
      unfolding ends_disposed_def by blast
    from u(1) t(2) have "list_all not_dispose (t @ u)" by simp
    moreover from u(2) h' b
    have "snd (bind m f h) = h @ (t @ u) @ (case fst (bind m f h) of Inl e \<Rightarrow> [] | Inr y \<Rightarrow> [Dispose])"
      by simp
    ultimately show ?thesis by blast
  qed
qed

lemma ends_disposed_dispose: "ends_disposed (bind ssh_dispose (\<lambda>_. ret x))"
  unfolding ends_disposed_def
  by (rule allI, rule exI[of _ "[]"]) (simp add: bind_def ssh_dispose_def ret_def)

lemma deploy_try_ends_disposed: "ends_disposed (deploy_try env p)"
  unfolding deploy_try_def
  by (intro ends_disposed_bind ends_disposed_dispose adds_only_intros connectSSH_adds
        createBackup_adds deployFromGitHub_adds deployFromUpload_adds
        executeProjectTypeCommands_adds executeCustomCommands_adds)
     (simp_all add: not_dispose_def)

lemma filter_not_dispose: "list_all not_dispose t \<Longrightarrow> filter (\<lambda>e. e = Dispose) t = []"
  by (induction t) (auto simp: not_dispose_def)

section \<open>Steps that return on a session that never rejects\<close>

lemma returns_ret: "returns (ret x)"
  by (simp add: returns_def ret_def)

lemma returns_console_log: "returns (console_log s)"
  by (simp add: returns_def console_log_def)

lemma returns_console_error: "returns (console_error s e)"
  by (simp add: returns_def console_error_def)

lemma returns_execCommand: "never_rejects env \<Longrightarrow> returns (execCommand env c cwd)"
  unfolding returns_def using never_rejects_execCommand by blast

lemma returns_if: "returns m \<Longrightarrow> returns n \<Longrightarrow> returns (if b then m else n)"
  by simp

lemma returns_bind:
  assumes "returns m" and "\<And>x. returns (f x)"
  shows "returns (bind m f)"
  unfolding returns_def
proof
  fix h
  from assms(1) obtain x t where m: "m h = (Inr x, h @ t)"
    unfolding returns_def by blast
  from assms(2)[of x] obtain y u where "f x (h @ t) = (Inr y, (h @ t) @ u)"
    unfolding returns_def by blast
  with m have "bind m f h = (Inr y, h @ (t @ u))" by (simp add: bind_def)
  then show "\<exists>y t. bind m f h = (Inr y, h @ t)" by blast
qed

lemmas returns_intros = returns_ret returns_console_log returns_console_error returns_execCommand
  returns_if returns_bind

lemma project_type_switch_returns:
  "never_rejects env \<Longrightarrow> returns (project_type_switch env p pp)"
  unfolding project_type_switch_def by (intro returns_intros)

lemma createBackup_returns: "fst (createBackup env p h) = Inr ()"
  by (simp add: createBackup_def console_error_def split: prod.splits sum.splits)

lemma executeProjectTypeCommands_normalizes:
  assumes "never_rejects env"
  shows "\<exists>t. executeProjectTypeCommands env p h =
           (Inr (), h @ t @ [ExecCommand (chmod_cmd (path_join env (deploy_path p) (name p))) None])"
proof -
  let ?pp = "path_join env (deploy_path p) (name p)"
  let ?h1 = "h @ [Log (''Executing '' @ project_type p @ '' specific commands...'')]"
  from project_type_switch_returns[OF assms, of p ?pp]
  obtain x t where sw: "project_type_switch env p ?pp ?h1 = (Inr x, ?h1 @ t)"
    unfolding returns_def by blast
  from never_rejects_execCommand[OF assms, of "chmod_cmd ?pp" None "?h1 @ t"]
  obtain r where ch: "execCommand env (chmod_cmd ?pp) None (?h1 @ t)
      = (Inr r, (?h1 @ t) @ [ExecCommand (chmod_cmd ?pp) None])"
    by blast
  from sw ch have "executeProjectTypeCommands env p h =
      (Inr (), h @ (Log (''Executing '' @ project_type p @ '' specific commands...'') # t)
                 @ [ExecCommand (chmod_cmd ?pp) None])"
    by (simp add: executeProjectTypeCommands_def Let_def bind_def console_log_def ret_def)
  then show ?thesis by blast
qed

section \<open>Lines of the custom-command field\<close>

lemma split_newline_no_newline: "l \<in> set (split_newline s) \<Longrightarrow> CHR 0x0A \<notin> set l"
proof (induction s arbitrary: l)
  case Nil
  then show ?case by simp
next
  case (Cons c cs)
  show ?case
  proof (cases "c = CHR 0x0A")
    case True
    with Cons show ?thesis by auto
  next
    case False
    obtain l0 ls where sp: "split_newline cs = l0 # ls"
      by (cases "split_newline cs") (cases cs; simp split: if_splits list.splits)+
    with False Cons.prems have l: "l = c # l0 \<or> l \<in> set ls" by simp
    from Cons.IH[of l0] sp have "CHR 0x0A \<notin> set l0" by simp
    moreover from Cons.IH[of l] sp have "l \<in> set ls \<Longrightarrow> CHR 0x0A \<notin> set l" by simp
    ultimately show ?thesis using l False by auto
  qed
qed

lemma split_newline_join:
  "concat (map (\<lambda>l. l @ [CHR 0x0A]) (split_newline s)) = s @ [CHR 0x0A]"
proof (induction s)
  case Nil
  then show ?case by simp
next
  case (Cons c cs)
  obtain l0 ls where sp: "split_newline cs = l0 # ls"
    by (cases "split_newline cs") (cases cs; simp split: if_splits list.splits)+
  with Cons show ?case by (cases "c = CHR 0x0A") simp_all
qed

lemma dropWhile_Nil_list_all: "dropWhile P xs = [] \<longleftrightarrow> list_all P xs"
  by (induction xs) auto

lemma trim_Nil_iff: "trim s = [] \<longleftrightarrow> list_all js_whitespace s"
proof
  assume "list_all js_whitespace s"
  then have "dropWhile js_whitespace s = []" by (simp only: dropWhile_Nil_list_all not_False_eq_True)
  then show "trim s = []" by (simp add: trim_def del: dropWhile_eq_Nil_conv)
next
  assume t: "trim s = []"
  show "list_all js_whitespace s"
  proof (rule ccontr)
    assume "\<not> list_all js_whitespace s"
    then have ne: "dropWhile js_whitespace s \<noteq> []" by (simp only: dropWhile_Nil_list_all not_False_eq_True)
    then have "\<not> js_whitespace (hd (dropWhile js_whitespace s))" by (rule hd_dropWhile)
    moreover from ne have "hd (dropWhile js_whitespace s) \<in> set (rev (dropWhile js_whitespace s))"
      by simp
    moreover from t have "dropWhile js_whitespace (rev (dropWhile js_whitespace s)) = []"
      by (simp add: trim_def del: dropWhile_eq_Nil_conv)
    then have "\<forall>x\<in>set (rev (dropWhile js_whitespace s)). js_whitespace x"
      by (simp only: dropWhile_eq_Nil_conv)
    ultimately show False by blast
  qed
qed

lemma custom_command_list_eq:
  "custom_command_list s = filter (\<lambda>line. \<not> list_all js_whitespace line) (split_newline s)"
  by (simp add: custom_command_list_def trim_Nil_iff)

lemma split_newline_chars: "l \<in> set (split_newline s) \<Longrightarrow> set l \<subseteq> set s"
proof (induction s arbitrary: l)
  case Nil
  then show ?case by simp
next
  case (Cons c cs)
  show ?case
  proof (cases "c = CHR 0x0A")
    case True
    with Cons show ?thesis by auto
  next
    case False
    obtain l0 ls where sp: "split_newline cs = l0 # ls"
      by (cases "split_newline cs") (cases cs; simp split: if_splits list.splits)+
    with False Cons.prems have l: "l = c # l0 \<or> l \<in> set ls" by simp
    from Cons.IH[of l0] sp have "set l0 \<subseteq> set cs" by simp
    moreover from Cons.IH[of l] sp have "l \<in> set ls \<Longrightarrow> set l \<subseteq> set cs" by simp
    ultimately show ?thesis using l by auto
  qed
qed

lemma custom_command_list_blank:
  assumes "list_all js_whitespace s"
  shows "custom_command_list s = []"
proof -
  have "list_all js_whitespace l" if "l \<in> set (split_newline s)" for l
    using split_newline_chars[OF that] assms by (auto simp: list_all_iff)
  then show ?thesis by (simp add: custom_command_list_eq filter_empty_conv)
qed

lemma run_commands_execs:
  assumes "never_rejects env"
  shows "\<exists>t. run_commands env pp cs h = (Inr (), h @ t) \<and> execs t = map (\<lambda>c. (c, Some pp)) cs"
proof (induction cs arbitrary: h)
  case Nil
  then show ?case by (simp add: ret_def)
next
  case (Cons c cs)
  let ?h1 = "h @ [Log (''Executing: '' @ c)]"
  from assms obtain r where r: "exec_outcome env ?h1 c (Some pp) = Inr r"
    unfolding never_rejects_def by blast
  let ?h2 = "?h1 @ [ExecCommand c (Some pp), outcome_log r]"
  from r have step: "run_commands env pp (c # cs) h = run_commands env pp cs ?h2"
    by (simp add: bind_def console_log_def console_error_def execCommand_def outcome_log_def)
  from Cons.IH[of ?h2] obtain t where t: "run_commands env pp cs ?h2 = (Inr (), ?h2 @ t)"
    "execs t = map (\<lambda>c. (c, Some pp)) cs" by blast
  have "execs ([Log (''Executing: '' @ c), ExecCommand c (Some pp), outcome_log r] @ t)
         = map (\<lambda>c. (c, Some pp)) (c # cs)"
    using t(2) by (simp add: outcome_log_def)
  with step t(1) show ?case
    by (metis append.assoc append_Cons append_Nil)
qed

lemma run_commands_logged:
  assumes "never_rejects env"
  shows "snd (run_commands env pp cs h) = pre @ ExecCommand c cwd # post \<Longrightarrow> length h \<le> length pre
          \<Longrightarrow> exec_outcome env pre c cwd = Inr r \<Longrightarrow> \<exists>rest. post = outcome_log r # rest"
proof (induction cs arbitrary: h)
  case Nil
  then show ?case by (simp add: ret_def)
next
  case (Cons c0 cs)
  let ?h1 = "h @ [Log (''Executing: '' @ c0)]"
  from assms obtain r0 where r0: "exec_outcome env ?h1 c0 (Some pp) = Inr r0"
    unfolding never_rejects_def by blast
  let ?h2 = "?h1 @ [ExecCommand c0 (Some pp), outcome_log r0]"
  from r0 have step: "run_commands env pp (c0 # cs) h = run_commands env pp cs ?h2"
    by (simp add: bind_def console_log_def console_error_def execCommand_def outcome_log_def)
  from run_commands_execs[OF assms, of pp cs ?h2] obtain t
    where t: "run_commands env pp cs ?h2 = (Inr (), ?h2 @ t)" by blast
  show ?case
  proof (cases "length ?h2 \<le> length pre")
    case True
    from Cons.prems(1) step have "snd (run_commands env pp cs ?h2) = pre @ ExecCommand c cwd # post"
      by simp
    from Cons.IH[OF this True Cons.prems(3)] show ?thesis .
  next
    case False
    from Cons.prems(1) step t
    have eq: "pre @ (ExecCommand c cwd # post)
                = h @ ([Log (''Executing: '' @ c0), ExecCommand c0 (Some pp), outcome_log r0] @ t)"
      by simp
    from append_eq_append_longer[OF eq Cons.prems(2)] obtain pre'
      where pre': "pre = h @ pre'"
        "[Log (''Executing: '' @ c0), ExecCommand c0 (Some pp), outcome_log r0] @ t
           = pre' @ ExecCommand c cwd # post"
      by blast
    from False pre'(1) have len: "length pre' < 3" by simp
    consider "pre' = []" | x where "pre' = [x]" | x y where "pre' = [x, y]"
      using len by (cases pre'; simp; cases "tl pre'"; simp; cases "tl (tl pre')"; simp)
    then show ?thesis
    proof cases
      case 1
      with pre'(2) show ?thesis by simp
    next
      case 2
      with pre'(2) have "x = Log (''Executing: '' @ c0)" "c = c0" "cwd = Some pp"
        "post = outcome_log r0 # t" by auto
      with 2 pre'(1) r0 Cons.prems(3) show ?thesis by simp
    next
      case 3
      with pre'(2) have "ExecCommand c cwd = outcome_log r0" by simp
      then show ?thesis by (simp add: outcome_log_def split: if_splits)
    qed
  qed
qed

lemma executeCustomCommands_Some:
  "custom_commands p = Some s \<Longrightarrow>
   executeCustomCommands env p h =
     run_commands env (path_join env (deploy_path p) (name p)) (custom_command_list s)
       (h @ [Log ''Executing custom commands...''])"
  by (simp add: executeCustomCommands_def Let_def bind_def console_log_def)

lemma executeCustomCommands_returns:
  assumes "never_rejects env" and "custom_commands p = Some s"
  shows "fst (executeCustomCommands env p h) = Inr ()"
  using run_commands_execs[OF assms(1), of "path_join env (deploy_path p) (name p)"
      "custom_command_list s" "h @ [Log ''Executing custom commands...'']"]
  by (auto simp: executeCustomCommands_Some[OF assms(2)])

section \<open>The orchestrator after the build step\<close>

lemma deploy_try_split:
  "deploy_try env p =
     bind (deploy_through_build env p) (\<lambda>_.
     bind (if truthy (custom_commands p) then executeCustomCommands env p else ret ()) (\<lambda>_.
     bind (console_log (''Deployment completed for project: '' @ name p)) (\<lambda>_.
     bind ssh_dispose (\<lambda>_.
     ret True))))"
  by (simp only: deploy_try_def deploy_through_build_def bind_assoc)

lemma deploy_build_failed:
  assumes "deploy_through_build env p [] = (Inl e, h)"
  shows "deploy env p =
     (Inl e, h @ [LogError (''Deployment failed for project '' @ name p @ '':'') (Some e), Dispose])"
  using assms
  by (simp add: deploy_def deploy_try_split bind_def console_error_def ssh_dispose_def throw_def)

lemma deploy_after_build:
  assumes "deploy_through_build env p [] = (Inr u, h)"
    and "truthy (custom_commands p) \<Longrightarrow> fst (executeCustomCommands env p h) = Inr ()"
  shows "deploy env p =
     (Inr True,
      (if truthy (custom_commands p) then snd (executeCustomCommands env p h) else h)
        @ [Log (''Deployment completed for project: '' @ name p), Dispose])"
proof (cases "truthy (custom_commands p)")
  case True
  with assms(2) obtain h' where "executeCustomCommands env p h = (Inr (), h')"
    by (cases "executeCustomCommands env p h") auto
  with True assms(1) show ?thesis
    by (simp add: deploy_def deploy_try_split bind_def console_log_def ssh_dispose_def ret_def)
next
  case False
  with assms(1) show ?thesis
    by (simp add: deploy_def deploy_try_split bind_def console_log_def ssh_dispose_def ret_def)
qed

section \<open>The remote shell on plain words\<close>













section \<open>Retention on the remote host\<close>

text \<open>The pattern of a project matches its own archives, and also those of every project
  whose name continues its name with an underscore.\<close>

lemma glob_match_star: "glob_match pat s \<Longrightarrow> glob_match (CHR ''*'' # pat) (x @ s)"
proof (induction x)
  case Nil
  then show ?case by (cases s) simp_all
next
  case (Cons a x)
  then show ?case by simp
qed

lemma glob_match_literal:
  "CHR ''*'' \<notin> set pre \<Longrightarrow> glob_match (pre @ pat) (pre @ s) = glob_match pat s"
  by (induction pre) auto

lemma plain_name_no_star: "plain_name w \<Longrightarrow> CHR ''*'' \<notin> set w"
  by (auto simp: plain_name_def plain_word_def plain_char_def list_all_iff Let_def)

lemma backup_pattern_matches:
  assumes "plain_name (name p)"
  shows "glob_match (backup_pattern p) (name p @ ''_'' @ rest @ ''.tar.gz'')"
proof -
  have "glob_match (CHR ''*'' # ''.tar.gz'') (rest @ ''.tar.gz'')"
    by (rule glob_match_star) simp
  then have "glob_match (''_'' @ CHR ''*'' # ''.tar.gz'') (''_'' @ rest @ ''.tar.gz'')"
    by simp
  with glob_match_literal[OF plain_name_no_star[OF assms], of "''_*.tar.gz''" "''_'' @ rest @ ''.tar.gz''"]
  show ?thesis by (simp add: backup_pattern_def)
qed

lemma backup_pattern_matches_longer_name:
  assumes "plain_name (name p)" and "name q = name p @ ''_'' @ x"
  shows "glob_match (backup_pattern p) (name q @ ''_'' @ timestamp @ ''.tar.gz'')"
  using backup_pattern_matches[OF assms(1), of "x @ ''_'' @ timestamp"] assms(2) by simp

text \<open>Where the model answers, files that do not match the pattern are never removed, and
  at most five matching files remain.\<close>

lemma clean_old_backups_Some:
  "clean_old_backups p dir = Some dir' \<Longrightarrow>
   dir' = xargs_rm (tail_from 6 (ls_t (backup_pattern p) dir)) dir \<and> distinct (map fst dir)"
  by (simp add: clean_old_backups_def split: if_splits)

lemma clean_old_backups_keeps_unmatched:
  assumes "clean_old_backups p dir = Some dir'"
    and "f \<in> set dir" and "\<not> glob_match (backup_pattern p) (fst f)"
  shows "f \<in> set dir'"
proof -
  have "set (tail_from 6 (ls_t (backup_pattern p) dir)) \<subseteq> set (ls_t (backup_pattern p) dir)"
    unfolding tail_from_def by (rule set_drop_subset)
  moreover have "fst f \<notin> set (ls_t (backup_pattern p) dir)"
    using assms(3) by (auto simp: ls_t_def)
  ultimately show ?thesis
    using assms(2) clean_old_backups_Some[OF assms(1)] by (auto simp: xargs_rm_def)
qed

lemma clean_old_backups_at_most_five:
  assumes "clean_old_backups p dir = Some dir'"
  shows "length (filter (\<lambda>f. glob_match (backup_pattern p) (fst f)) dir') \<le> 5"
proof -
  let ?match = "\<lambda>f. glob_match (backup_pattern p) (fst f)"
  let ?N = "ls_t (backup_pattern p) dir"
  let ?R = "filter ?match dir'"
  from clean_old_backups_Some[OF assms]
  have dir': "dir' = xargs_rm (tail_from 6 ?N) dir" and dist: "distinct (map fst dir)" by simp_all
  have setN: "set ?N = fst ` set (filter ?match dir)"
    by (simp add: ls_t_def)
  have dR: "distinct (map fst ?R)"
    using dist by (simp add: dir' xargs_rm_def distinct_map_filter)
  have "set (map fst ?R) \<subseteq> set ?N - set (drop 5 ?N)"
    by (auto simp: dir' xargs_rm_def tail_from_def setN)
  moreover have "set ?N - set (drop 5 ?N) \<subseteq> set (take 5 ?N)"
    by (metis Diff_subset_conv Un_commute append_take_drop_id set_append subset_refl)
  ultimately have "set (map fst ?R) \<subseteq> set (take 5 ?N)" by blast
  then have "card (set (map fst ?R)) \<le> card (set (take 5 ?N))"
    by (simp add: card_mono)
  also have "\<dots> \<le> length (take 5 ?N)" by (rule card_length)
  also have "\<dots> \<le> 5" by simp
  finally show ?thesis using distinct_card[OF dR] by simp
qed

section \<open>Session Manager: credential selection\<close>

text \<open>
  Claim C1, as amended.  The derived configuration carries at most one credential: the
  password when a non-empty password is present (whether or not a private key is present
  too), otherwise the private key when a non-empty one is present, otherwise none.  No
  validation takes place: \<^verbatim>\<open>ssh.connect\<close> is called with the derived configuration in
  every case, and \<^verbatim>\<open>connectSSH\<close> throws exactly when that call rejects.
\<close>

theorem connectSSH_selects_credential:
  "(truthy (ssh_password srv) \<longrightarrow>
      password (connect_config_of srv) = ssh_password srv \<and> privateKey (connect_config_of srv) = None)
   \<and> (\<not> truthy (ssh_password srv) \<and> truthy (ssh_private_key srv) \<longrightarrow>
      password (connect_config_of srv) = None \<and> privateKey (connect_config_of srv) = ssh_private_key srv)
   \<and> (\<not> truthy (ssh_password srv) \<and> \<not> truthy (ssh_private_key srv) \<longrightarrow>
      password (connect_config_of srv) = None \<and> privateKey (connect_config_of srv) = None)
   \<and> connectSSH env srv h =
      (case connect_outcome env h (connect_config_of srv) of
         None \<Rightarrow> (Inr (), h @ [Connect (connect_config_of srv), Log ''SSH connection established''])
       | Some e \<Rightarrow> (Inl e, h @ [Connect (connect_config_of srv)]))"
  by (simp add: connect_config_of_def connectSSH_def bind_def ssh_connect_def console_log_def
        split: option.splits)

text \<open>The three kinds of server, and a refused connection.\<close>

theorem connectSSH_selects_credential_witness:
  "truthy (ssh_password password_and_key_server)
   \<and> password (connect_config_of password_and_key_server) = Some ''secret''
   \<and> privateKey (connect_config_of password_and_key_server) = None
   \<and> \<not> truthy (ssh_password key_server) \<and> truthy (ssh_private_key key_server)
   \<and> password (connect_config_of key_server) = None
   \<and> privateKey (connect_config_of key_server) = Some ''KEY''
   \<and> \<not> truthy (ssh_password bare_server) \<and> \<not> truthy (ssh_private_key bare_server)
   \<and> password (connect_config_of bare_server) = None
   \<and> privateKey (connect_config_of bare_server) = None
   \<and> connectSSH unreachable_env key_server [] =
        (Inl (SessionError ''connect ECONNREFUSED''), [Connect (connect_config_of key_server)])"
  using connectSSH_selects_credential [of password_and_key_server unreachable_env "[]"]
    connectSSH_selects_credential [of key_server unreachable_env "[]"]
    connectSSH_selects_credential [of bare_server unreachable_env "[]"]
  by (simp add: password_and_key_server_def key_server_def bare_server_def unreachable_env_def)

text \<open>
  Claim C1 as stated fails: for a server with neither a password nor a private key,
  \<^verbatim>\<open>connectSSH\<close> raises nothing and calls \<^verbatim>\<open>ssh.connect\<close> with a configuration that has
  no credential.
\<close>

theorem connectSSH_no_credential_counterexample:
  "\<not> truthy (ssh_password bare_server) \<and> \<not> truthy (ssh_private_key bare_server)
   \<and> connectSSH (example_env all_fail) bare_server [] =
        (Inr (),
         [Connect \<lparr>host = ''10.0.0.5'', port = Some 22, username = ''deploy'',
                   password = None, privateKey = None\<rparr>,
          Log ''SSH connection established''])"
  by (simp add: bare_server_def example_env_def connect_config_of_def connectSSH_def bind_def
        ssh_connect_def console_log_def)

section \<open>Orchestrator: session release\<close>

text \<open>
  Claim C2.  Every invocation of \<^verbatim>\<open>deploy\<close>, whether it returns or throws (a refused
  connection included), calls \<^verbatim>\<open>ssh.dispose()\<close> exactly once, and that call is the
  last thing it does.
\<close>

theorem deploy_disposes_exactly_once:
  "length (filter (\<lambda>e. e = Dispose) (snd (deploy env p))) = 1 \<and> last (snd (deploy env p)) = Dispose"
proof -
  from deploy_try_ends_disposed[of env p] obtain t where t: "list_all not_dispose t"
    "snd (deploy_try env p []) = [] @ t @ (case fst (deploy_try env p []) of Inl e \<Rightarrow> [] | Inr x \<Rightarrow> [Dispose])"
    unfolding ends_disposed_def by blast
  obtain r h' where d: "deploy_try env p [] = (r, h')" by (cases "deploy_try env p []")
  show ?thesis
  proof (cases r)
    case (Inl e)
    with d t(2) have "snd (deploy env p) = t @ [LogError (''Deployment failed for project '' @ name p @ '':'') (Some e), Dispose]"
      by (simp add: deploy_def bind_def console_error_def ssh_dispose_def throw_def)
    with t(1) show ?thesis by (simp add: filter_not_dispose)
  next
    case (Inr b)
    with d t(2) have "snd (deploy env p) = t @ [Dispose]"
      by (simp add: deploy_def)
    with t(1) show ?thesis by (simp add: filter_not_dispose)
  qed
qed

section \<open>Source Acquirer: github mode\<close>




section \<open>Backup Manager: retention\<close>

text \<open>
  Claim C4 fails on the code for projects whose names extend one another: the pattern
  \<^verbatim>\<open>app_*.tar.gz\<close> of a project named \<^verbatim>\<open>app\<close> also matches the archives of a project
  named \<^verbatim>\<open>app_v2\<close>.  With five such archives in the backup directory, the retention
  command issued after the first backup of \<^verbatim>\<open>app\<close> removes the oldest archive of
  \<^verbatim>\<open>app_v2\<close>.
\<close>

theorem clean_old_backups_deletes_other_project:
  "clean_old_backups_cmd app =
     ''cd /var/backups/webdeploy && ls -t app_*.tar.gz | tail -n +6 | xargs -r rm''
   \<and> clean_old_backups app (backups_of_app_v2 @ [(''app_2024-01-06T00-00-00-000Z.tar.gz'', 6)]) =
     Some
     [(''app_v2_2024-01-02T00-00-00-000Z.tar.gz'', 2),
      (''app_v2_2024-01-03T00-00-00-000Z.tar.gz'', 3),
      (''app_v2_2024-01-04T00-00-00-000Z.tar.gz'', 4),
      (''app_v2_2024-01-05T00-00-00-000Z.tar.gz'', 5),
      (''app_2024-01-06T00-00-00-000Z.tar.gz'', 6)]"
  by (simp add: clean_old_backups_cmd_def backup_pattern_def backupDir_def app_def
        clean_old_backups_def xargs_rm_def tail_from_def ls_t_def backups_of_app_v2_def
        plain_name_def plain_word_def plain_char_def no_option_def)

section \<open>Source Acquirer: upload mode\<close>




section \<open>Backup Manager: errors are swallowed\<close>

text \<open>
  Claim C6.  \<^verbatim>\<open>createBackup\<close> never throws, whatever the session does (a rejected
  probe, archive command or cleanup command included): it returns normally, so whatever
  follows it in the caller runs.
\<close>

theorem createBackup_never_propagates:
  "fst (createBackup env p h) = Inr ()
   \<and> bind (createBackup env p) f h = f () (snd (createBackup env p h))"
proof -
  have 1: "fst (createBackup env p h) = Inr ()"
    by (rule createBackup_returns)
  then have "bind (createBackup env p) f h = f () (snd (createBackup env p h))"
    by (cases "createBackup env p h") (simp add: bind_def)
  with 1 show ?thesis by simp
qed

text \<open>On a session that rejects the existence probe, the error is logged and swallowed.\<close>

theorem createBackup_never_propagates_witness:
  "createBackup unreachable_env app1 [] =
     (Inr (),
      [ExecCommand (test_d_cmd ''/var/www/app1'') None,
       LogError ''Backup creation failed:'' (Some (SessionError ''Not connected to server''))])"
  using createBackup_never_propagates [of unreachable_env app1 "[]"]
  by (simp add: createBackup_def createBackup_try_def bind_def execCommand_def console_error_def
        unreachable_env_def app1_def example_join_def)

section \<open>Build Executor\<close>

text \<open>
  Claim C7.  For every project type, and whatever the exit codes of the per-type
  commands, \<^verbatim>\<open>executeProjectTypeCommands\<close> does not throw and its last action is the
  recursive \<^verbatim>\<open>chmod 755\<close> of the deployed directory.
\<close>

theorem executeProjectTypeCommands_always_normalizes:
  assumes "never_rejects env"
  shows "fst (executeProjectTypeCommands env p h) = Inr ()
       \<and> (\<exists>t. snd (executeProjectTypeCommands env p h) =
                h @ t @ [ExecCommand (chmod_cmd (path_join env (deploy_path p) (name p))) None])"
proof -
  from executeProjectTypeCommands_normalizes[OF assms, of p h] obtain t
    where "executeProjectTypeCommands env p h =
           (Inr (), h @ t @ [ExecCommand (chmod_cmd (path_join env (deploy_path p) (name p))) None])"
    by blast
  then show ?thesis by (metis fst_conv snd_conv)
qed

text \<open>A Node.js project on a host where every command fails.\<close>

theorem executeProjectTypeCommands_always_normalizes_witness:
  "executeProjectTypeCommands (example_env all_fail) app1 [] =
     (Inr (),
      [Log ''Executing nodejs specific commands...'',
       ExecCommand ''cd /var/www/app1 && npm install'' None,
       ExecCommand ''which pm2'' None,
       ExecCommand ''chmod -R 755 /var/www/app1'' None])"
  using executeProjectTypeCommands_always_normalizes [OF never_rejects_example_env, of all_fail app1 "[]"]
  by (simp add: executeProjectTypeCommands_def project_type_switch_def Let_def bind_def
        console_log_def execCommand_def ret_def example_env_def all_fail_def app1_def
        example_join_def chmod_cmd_def)

section \<open>Custom Command Runner\<close>

text \<open>
  Claim C8.  \<^verbatim>\<open>executeCustomCommands\<close> splits the field at line feeds, drops the lines
  that are empty or white space only, and hands every other line, in order, to
  \<^verbatim>\<open>execCommand\<close> with the deployed directory as working directory.  Whatever the exit
  codes, it returns normally; after each command its outcome is logged (as a failure when
  the exit code is not 0); and a deployment that has reached the runner completes
  successfully.
\<close>

theorem executeCustomCommands_runs_every_line:
  assumes "never_rejects env" and "custom_commands p = Some s"
  shows "fst (executeCustomCommands env p h) = Inr ()
    \<and> execs (snd (executeCustomCommands env p h)) =
        execs h @ map (\<lambda>command. (command, Some (path_join env (deploy_path p) (name p))))
                    (filter (\<lambda>line. \<not> list_all js_whitespace line) (split_newline s))
    \<and> (\<forall>pre command cwd post result.
          snd (executeCustomCommands env p h) = pre @ ExecCommand command cwd # post
          \<and> length h \<le> length pre \<and> exec_outcome env pre command cwd = Inr result \<longrightarrow>
          (\<exists>rest. post =
             (if code result \<noteq> Some 0 then LogError (''Command failed: '' @ stderr result) None
              else Log (''Command output: '' @ stdout result)) # rest))
    \<and> (\<forall>u h3. deploy_through_build env p [] = (Inr u, h3) \<longrightarrow> fst (deploy env p) = Inr True)"
proof -
  let ?pp = "path_join env (deploy_path p) (name p)"
  let ?h1 = "h @ [Log ''Executing custom commands...'']"
  note eq = executeCustomCommands_Some[OF assms(2), of env]
  from run_commands_execs[OF assms(1), of ?pp "custom_command_list s" ?h1] obtain t
    where t: "run_commands env ?pp (custom_command_list s) ?h1 = (Inr (), ?h1 @ t)"
      "execs t = map (\<lambda>c. (c, Some ?pp)) (custom_command_list s)" by blast
  have 1: "fst (executeCustomCommands env p h) = Inr ()"
    using assms by (rule executeCustomCommands_returns)
  have 2: "execs (snd (executeCustomCommands env p h)) =
        execs h @ map (\<lambda>command. (command, Some ?pp))
                    (filter (\<lambda>line. \<not> list_all js_whitespace line) (split_newline s))"
    using t by (simp add: eq execs_append custom_command_list_eq)
  have 3: "\<exists>rest. post =
             (if code result \<noteq> Some 0 then LogError (''Command failed: '' @ stderr result) None
              else Log (''Command output: '' @ stdout result)) # rest"
    if "snd (executeCustomCommands env p h) = pre @ ExecCommand command cwd # post"
      and "length h \<le> length pre" and "exec_outcome env pre command cwd = Inr result"
    for pre command cwd post result
  proof -
    from that(1) have a: "snd (run_commands env ?pp (custom_command_list s) ?h1)
        = pre @ ExecCommand command cwd # post" by (simp add: eq)
    with t(1) have "h @ (Log ''Executing custom commands...'' # t) = pre @ (ExecCommand command cwd # post)"
      by simp
    from append_eq_append_longer[OF this[symmetric] that(2)] obtain pre'
      where "pre = h @ pre'" "Log ''Executing custom commands...'' # t = pre' @ ExecCommand command cwd # post"
      by blast
    then have "length ?h1 \<le> length pre" by (cases pre') auto
    from run_commands_logged[OF assms(1) a this that(3)] show ?thesis
      by (simp add: outcome_log_def)
  qed
  have 4: "fst (deploy env p) = Inr True" if "deploy_through_build env p [] = (Inr u, h3)" for u h3
    using deploy_after_build[OF that executeCustomCommands_returns[OF assms]] by simp
  from 1 2 3 4 show ?thesis by blast
qed

text \<open>The field \<^verbatim>\<open>echo one\n\nexit 1\necho two\<close> on a host where \<^verbatim>\<open>exit 1\<close> fails.\<close>

theorem executeCustomCommands_runs_every_line_witness:
  "executeCustomCommands (example_env fresh_host) app5 [] =
     (Inr (),
      [Log ''Executing custom commands...'',
       Log ''Executing: echo one'', ExecCommand ''echo one'' (Some ''/var/www/app5''),
       Log ''Command output: ok'',
       Log ''Executing: exit 1'', ExecCommand ''exit 1'' (Some ''/var/www/app5''),
       LogError ''Command failed: '' None,
       Log ''Executing: echo two'', ExecCommand ''echo two'' (Some ''/var/www/app5''),
       Log ''Command output: ok''])
   \<and> fst (deploy (example_env fresh_host) app5) = Inr True"
proof -
  have cc: "custom_commands app5 =
      Some (''echo one'' @ [CHR 0x0A, CHR 0x0A] @ ''exit 1'' @ [CHR 0x0A] @ ''echo two'')"
    by (simp add: app5_def)
  have run: "executeCustomCommands (example_env fresh_host) app5 [] =
     (Inr (),
      [Log ''Executing custom commands...'',
       Log ''Executing: echo one'', ExecCommand ''echo one'' (Some ''/var/www/app5''),
       Log ''Command output: ok'',
       Log ''Executing: exit 1'', ExecCommand ''exit 1'' (Some ''/var/www/app5''),
       LogError ''Command failed: '' None,
       Log ''Executing: echo two'', ExecCommand ''echo two'' (Some ''/var/www/app5''),
       Log ''Command output: ok''])"
    by (simp add: executeCustomCommands_def Let_def bind_def console_log_def console_error_def
          execCommand_def ret_def custom_command_list_def trim_def js_whitespace_def
          example_env_def example_join_def fresh_host_def app5_def)
  obtain r h3 where b: "deploy_through_build (example_env fresh_host) app5 [] = (r, h3)"
    by (cases "deploy_through_build (example_env fresh_host) app5 []")
  have "r = Inr ()"
    using b by (simp add: deploy_through_build_def run_simps example_simps app5_def)
  with b executeCustomCommands_runs_every_line
         [OF never_rejects_example_env cc, of fresh_host "[]", THEN conjunct2, THEN conjunct2, THEN conjunct2]
  have "fst (deploy (example_env fresh_host) app5) = Inr True" by blast
  with run show ?thesis by simp
qed

section \<open>Orchestrator: unrecognized source type\<close>

text \<open>
  Claim C9.  For a project whose \<^verbatim>\<open>source_type\<close> is neither \<^verbatim>\<open>github\<close> nor \<^verbatim>\<open>upload\<close>,
  on a session that connects and never rejects a command, \<^verbatim>\<open>deploy\<close> returns
  \<^verbatim>\<open>true\<close>: the build step starts from the trace the backup left (nothing is done for
  source acquisition), the custom commands follow, and the session is disposed.
\<close>

theorem deploy_skips_unrecognized_source_type:
  assumes "source_type p \<noteq> ''github''" and "source_type p \<noteq> ''upload''"
    and "never_rejects env"
    and "connect_outcome env [Log (''Starting deployment for project: '' @ name p)]
           (connect_config_of (server p)) = None"
  shows "deploy env p =
     (Inr True,
      (let h1 = [Log (''Starting deployment for project: '' @ name p),
                 Connect (connect_config_of (server p)),
                 Log ''SSH connection established''];
           h2 = snd (createBackup env p h1);
           h3 = snd (executeProjectTypeCommands env p h2);
           h4 = (if truthy (custom_commands p) then snd (executeCustomCommands env p h3) else h3)
       in h4 @ [Log (''Deployment completed for project: '' @ name p), Dispose]))"
proof -
  let ?h1 = "[Log (''Starting deployment for project: '' @ name p),
              Connect (connect_config_of (server p)),
              Log ''SSH connection established'']"
  have conn: "connectSSH env (server p) [Log (''Starting deployment for project: '' @ name p)]
                = (Inr (), ?h1)"
    using assms(4) by (simp add: connectSSH_def bind_def ssh_connect_def console_log_def)
  obtain h2 where backup: "createBackup env p ?h1 = (Inr (), h2)"
    using createBackup_returns[of env p ?h1] by (cases "createBackup env p ?h1") simp
  from executeProjectTypeCommands_normalizes[OF assms(3), of p h2]
  obtain h3 where build: "executeProjectTypeCommands env p h2 = (Inr (), h3)" by auto
  from assms(1,2) conn backup build
  have through: "deploy_through_build env p [] = (Inr (), h3)"
    by (simp add: deploy_through_build_def bind_def console_log_def ret_def)
  have "fst (executeCustomCommands env p h3) = Inr ()" if "truthy (custom_commands p)"
  proof -
    from that obtain s where "custom_commands p = Some s" by (cases "custom_commands p") auto
    with assms(3) show ?thesis by (rule executeCustomCommands_returns)
  qed
  from deploy_after_build[OF through this]
  have "deploy env p =
     (Inr True,
      (if truthy (custom_commands p) then snd (executeCustomCommands env p h3) else h3)
        @ [Log (''Deployment completed for project: '' @ name p), Dispose])" .
  moreover from backup have "snd (createBackup env p ?h1) = h2" by simp
  moreover from build have "snd (executeProjectTypeCommands env p h2) = h3" by simp
  ultimately show ?thesis by (simp add: Let_def)
qed

text \<open>A project with source type \<^verbatim>\<open>rsync\<close>.\<close>

theorem deploy_skips_unrecognized_source_type_witness:
  "deploy (example_env fresh_host) rsync_app =
     (Inr True,
      [Log ''Starting deployment for project: app4'',
       Connect \<lparr>host = ''10.0.0.5'', port = Some 22, username = ''deploy'',
                 password = None, privateKey = Some ''KEY''\<rparr>,
       Log ''SSH connection established'',
       ExecCommand (test_d_cmd ''/var/www/app4'') None,
       Log ''Executing php specific commands...'',
       ExecCommand (test_f_cmd ''/var/www/app4'' ''composer.json'') None,
       ExecCommand ''chmod -R 755 /var/www/app4'' None,
       Log ''Executing custom commands...'',
       Log ''Executing: exit 1'',
       ExecCommand ''exit 1'' (Some ''/var/www/app4''),
       LogError ''Command failed: '' None,
       Log ''Deployment completed for project: app4'',
       Dispose])"
proof -
  have 1: "source_type rsync_app \<noteq> ''github''" and 2: "source_type rsync_app \<noteq> ''upload''"
    by (simp_all add: rsync_app_def)
  have 3: "connect_outcome (example_env fresh_host) hh cfg = None" for hh cfg
    by (simp add: example_env_def)
  show ?thesis
    using deploy_skips_unrecognized_source_type [OF 1 2 never_rejects_example_env 3]
    by (simp add: connect_config_of_def key_server_def createBackup_def
          createBackup_try_def executeProjectTypeCommands_def executeCustomCommands_def
          custom_command_list_def project_type_switch_def Let_def bind_def console_log_def
          console_error_def execCommand_def ret_def trim_def js_whitespace_def test_d_cmd_def
          test_f_cmd_def chmod_cmd_def example_env_def example_join_def fresh_host_def rsync_app_def)
qed

section \<open>Orchestrator: blank custom commands\<close>

text \<open>
  Claim C10.  When \<^verbatim>\<open>custom_commands\<close> is null, empty or made of white space and line
  feeds only, \<^verbatim>\<open>deploy\<close> executes nothing after the build step: a null or empty field
  skips the runner, and a blank field gives an empty command list, so the runner only
  prints its heading.
\<close>

theorem deploy_blank_custom_commands:
  assumes "custom_commands p = None \<or> (\<exists>s. custom_commands p = Some s \<and> list_all js_whitespace s)"
  shows "deploy env p =
     (case deploy_through_build env p [] of
        (Inl e, h) \<Rightarrow>
          (Inl e, h @ [LogError (''Deployment failed for project '' @ name p @ '':'') (Some e), Dispose])
      | (Inr u, h) \<Rightarrow>
          (Inr True,
           h @ (if truthy (custom_commands p) then [Log ''Executing custom commands...''] else [])
             @ [Log (''Deployment completed for project: '' @ name p), Dispose]))
   \<and> (\<forall>s. custom_commands p = Some s \<longrightarrow> custom_command_list s = [])"
proof -
  have list: "custom_command_list s = []" if "custom_commands p = Some s" for s
    using assms that by (auto intro: custom_command_list_blank)
  have run: "executeCustomCommands env p h = (Inr (), h @ [Log ''Executing custom commands...''])"
    if "truthy (custom_commands p)" for h
  proof -
    from that obtain s where s: "custom_commands p = Some s" by (cases "custom_commands p") auto
    from executeCustomCommands_Some[OF s, of env h] list[OF s] show ?thesis by (simp add: ret_def)
  qed
  obtain r h where b: "deploy_through_build env p [] = (r, h)"
    by (cases "deploy_through_build env p []")
  have "deploy env p =
     (case (r, h) of
        (Inl e, h) \<Rightarrow>
          (Inl e, h @ [LogError (''Deployment failed for project '' @ name p @ '':'') (Some e), Dispose])
      | (Inr u, h) \<Rightarrow>
          (Inr True,
           h @ (if truthy (custom_commands p) then [Log ''Executing custom commands...''] else [])
             @ [Log (''Deployment completed for project: '' @ name p), Dispose]))"
  proof (cases r)
    case (Inl e)
    with b deploy_build_failed[of env p e h] show ?thesis by simp
  next
    case (Inr u)
    with b have "deploy_through_build env p [] = (Inr u, h)" by simp
    from deploy_after_build[OF this] run[of h] Inr show ?thesis by simp
  qed
  with b list show ?thesis by simp
qed

text \<open>A blank field and a null field.\<close>

theorem deploy_blank_custom_commands_witness:
  "fst (deploy (example_env fresh_host) blank_commands_app) = Inr True
   \<and> execs (snd (deploy (example_env fresh_host) blank_commands_app)) =
        [(test_d_cmd ''/var/www/app3'', None),
         (test_d_cmd ''/var/www/app3'', None),
         (''mkdir -p /var/www'', None),
         (''cd /var/www && git clone git@host:org/app3.git app3'', None),
         (''chmod -R 755 /var/www/app3'', None)]
   \<and> fst (deploy (example_env fresh_host) app1) = Inr True
   \<and> execs (snd (deploy (example_env fresh_host) app1)) =
        [(test_d_cmd ''/var/www/app1'', None),
         (test_d_cmd ''/var/www/app1'', None),
         (''mkdir -p /var/www'', None),
         (''cd /var/www && git clone git@host:org/app1.git app1'', None),
         (''cd /var/www/app1 && npm install'', None),
         (''which pm2'', None),
         (pm2_cmd app1, Some ''/var/www/app1''),
         (''chmod -R 755 /var/www/app1'', None)]"
proof -
  have 1: "custom_commands blank_commands_app = None
            \<or> (\<exists>s. custom_commands blank_commands_app = Some s \<and> list_all js_whitespace s)"
    by (simp add: blank_commands_app_def js_whitespace_def)
  have 2: "custom_commands app1 = None
            \<or> (\<exists>s. custom_commands app1 = Some s \<and> list_all js_whitespace s)"
    by (simp add: app1_def)
  have b1: "deploy_through_build (example_env fresh_host) blank_commands_app [] =
     (Inr (),
      [Log ''Starting deployment for project: app3'',
       Connect \<lparr>host = ''10.0.0.5'', port = Some 22, username = ''deploy'',
                 password = None, privateKey = Some ''KEY''\<rparr>,
       Log ''SSH connection established'',
       ExecCommand (test_d_cmd ''/var/www/app3'') None,
       Log ''Deploying from GitHub: git@host:org/app3.git'',
       ExecCommand (test_d_cmd ''/var/www/app3'') None,
       Log ''Cloning repository...'',
       ExecCommand ''mkdir -p /var/www'' None,
       ExecCommand ''cd /var/www && git clone git@host:org/app3.git app3'' None,
       Log ''Git clone output: ok'',
       Log ''Executing static specific commands...'',
       Log ''Static site deployed - no additional commands needed'',
       ExecCommand ''chmod -R 755 /var/www/app3'' None])"
    by (simp add: deploy_through_build_def run_simps example_simps blank_commands_app_def)
  have b2: "deploy_through_build (example_env fresh_host) app1 [] =
     (Inr (),
      [Log ''Starting deployment for project: app1'',
       Connect \<lparr>host = ''10.0.0.5'', port = Some 22, username = ''deploy'',
                 password = None, privateKey = Some ''KEY''\<rparr>,
       Log ''SSH connection established'',
       ExecCommand (test_d_cmd ''/var/www/app1'') None,
       Log ''Deploying from GitHub: git@host:org/app1.git'',
       ExecCommand (test_d_cmd ''/var/www/app1'') None,
       Log ''Cloning repository...'',
       ExecCommand ''mkdir -p /var/www'' None,
       ExecCommand ''cd /var/www && git clone git@host:org/app1.git app1'' None,
       Log ''Git clone output: ok'',
       Log ''Executing nodejs specific commands...'',
       ExecCommand ''cd /var/www/app1 && npm install'' None,
       ExecCommand ''which pm2'' None,
       ExecCommand (pm2_cmd app1) (Some ''/var/www/app1''),
       Log ''Node.js app restarted with PM2'',
       ExecCommand ''chmod -R 755 /var/www/app1'' None])"
    by (simp add: deploy_through_build_def run_simps example_simps app1_def)
  from deploy_blank_custom_commands [OF 1, of "example_env fresh_host", THEN conjunct1]
    deploy_blank_custom_commands [OF 2, of "example_env fresh_host", THEN conjunct1]
  show ?thesis
    by (simp add: b1 b2)
qed


end
